theory Spec2Isabelle
  imports Main "HOL-Library.Word"
begin

section \<open>Data model of \<^verbatim>\<open>models/wildApricotContact.go\<close>\<close>

text \<open>
  A field value of a contact is a Go \<^verbatim>\<open>interface{}\<close> filled by the JSON decoder, so at
  run time it is one of: nil, a string, a bool, a float64, a \<^verbatim>\<open>[]interface{}\<close> or a
  \<^verbatim>\<open>map[string]interface{}\<close>. The float64 is carried as its 64 bits; no function of
  the package looks inside it. Go strings are byte sequences, as HOL's \<open>string\<close> is.
\<close>

datatype iface =
    INil
  | IString string
  | IBool bool
  | IFloat64 "64 word"
  | ISlice "iface list"
  | IMap "string \<Rightarrow> iface option"

record FieldValue =
  FieldName :: string
  Value :: iface
  SystemCode :: string

text \<open>The field \<^verbatim>\<open>Id\<close> of the Go struct is \<open>Id'\<close> here (\<open>Id\<close> is HOL's identity relation).\<close>

record Contact =
  FirstName :: string
  LastName :: string
  Email :: string
  DisplayName :: string
  Organization :: string
  ProfileLastUpdated :: string
  FieldValues :: "FieldValue list"
  Id' :: int
  Url :: string
  IsAccountAdministrator :: bool
  TermsOfUseAccepted :: bool
  Status :: string

text \<open>
  Package \<^verbatim>\<open>config\<close> is not part of the sources at hand; the extractors read two of its
  fields, the upstream names of the tag-id field and of the training field.
\<close>

record Config =
  TagIdFieldName :: string
  TrainingFieldName :: string

subsection \<open>Errors\<close>

text \<open>
  \<^verbatim>\<open>strconv.NumError\<close> is kept by its \<^verbatim>\<open>Err\<close> component. Every \<^verbatim>\<open>errors.New\<close> and
  \<^verbatim>\<open>fmt.Errorf\<close> of the package is one constructor, carrying what the message formats.
\<close>

datatype NumError = ErrSyntax | ErrRange

datatype error =
    TagIdNotString                \<comment> \<open>"TagId value is not a string"\<close>
  | TagIdConvert NumError         \<comment> \<open>"failed to convert string TagId to int: %v"\<close>
  | TagIdNonPositive              \<comment> \<open>"TagId value is non-positive"\<close>
  | TrainingNotSlice              \<comment> \<open>"training value is not a slice"\<close>
  | TrainingItemNotMap            \<comment> \<open>"training item is not a map"\<close>
  | TrainingLabelNotString        \<comment> \<open>"training label is not a string"\<close>
  | ContactTagIdError int error   \<comment> \<open>"error extracting TagId for contact %d: %v"\<close>
  | ContactTrainingError int error \<comment> \<open>"error extracting training labels for contact %d: %v"\<close>

section \<open>\<^verbatim>\<open>strconv.ParseInt(s, 10, 32)\<close>\<close>

text \<open>
  \<^verbatim>\<open>parseTagId\<close> calls the standard library's \<^verbatim>\<open>strconv.ParseInt\<close> with base 10 and
  bit size 32. The two library functions are transcribed for these arguments. The
  accumulator of \<^verbatim>\<open>ParseUint\<close> is a uint64: a \<open>nat\<close> with the wrap-around at \<open>2 ^ 64\<close>
  written out. Both functions return Go's pair of a value and an error.
\<close>

definition base :: nat where
  "base = 10"

definition bitSize :: nat where
  "bitSize = 32"

definition maxUint64 :: nat where
  "maxUint64 = 2 ^ 64 - 1"

text \<open>\<^verbatim>\<open>lower(c) = c | ('x' - 'X')\<close>, on the byte's code.\<close>

definition lower :: "nat \<Rightarrow> nat" where
  "lower c = or c 32"

text \<open>
  The \<^verbatim>\<open>switch\<close> on a byte in \<^verbatim>\<open>ParseUint\<close>: the digit's value, or \<open>None\<close> for the
  \<^verbatim>\<open>default\<close> branch. (The underscore branch needs base 0.)
\<close>

definition digitVal :: "char \<Rightarrow> nat option" where
  "digitVal ch =
     (let c = (of_char ch :: nat) in
      if 48 \<le> c \<and> c \<le> 57 then Some (c - 48)
      else if 97 \<le> lower c \<and> lower c \<le> 122 then Some (lower c - 97 + 10)
      else None)"

fun ParseUint_loop :: "nat \<Rightarrow> string \<Rightarrow> nat \<times> NumError option" where
  "ParseUint_loop n [] = (n, None)"
| "ParseUint_loop n (ch # cs) =
     (case digitVal ch of
        None \<Rightarrow> (0, Some ErrSyntax)
      | Some d \<Rightarrow>
          if d \<ge> base then (0, Some ErrSyntax)
          else if n \<ge> maxUint64 div 10 + 1 then (2 ^ bitSize - 1, Some ErrRange)
          else
            let n' = (n * base) mod 2 ^ 64;
                n1 = (n' + d) mod 2 ^ 64
            in if n1 < n' \<or> n1 > 2 ^ bitSize - 1 then (2 ^ bitSize - 1, Some ErrRange)
               else ParseUint_loop n1 cs)"

definition ParseUint :: "string \<Rightarrow> nat \<times> NumError option" where
  "ParseUint s = (if s = [] then (0, Some ErrSyntax) else ParseUint_loop 0 s)"

text \<open>\<^verbatim>\<open>int64(un)\<close>: the uint64 read as two's complement.\<close>

definition int64 :: "nat \<Rightarrow> int" where
  "int64 u = (if u < 2 ^ 63 then int u else int u - 2 ^ 64)"

fun ParseInt :: "string \<Rightarrow> int \<times> NumError option" where
  "ParseInt [] = (0, Some ErrSyntax)"
| "ParseInt (c # cs) =
     (let neg = (c = CHR ''-'');
          s = (if c = CHR ''+'' \<or> c = CHR ''-'' then cs else c # cs);
          (un, err) = ParseUint s
      in if err \<noteq> None \<and> err \<noteq> Some ErrRange then (0, err)
         else
           let cutoff = (2 :: nat) ^ (bitSize - 1)
           in if \<not> neg \<and> un \<ge> cutoff then (int cutoff - 1, Some ErrRange)
              else if neg \<and> un > cutoff then (- int cutoff, Some ErrRange)
              else (if neg then - int64 un else int64 un, None))"

section \<open>The field extractor\<close>

text \<open>Each function returns Go's pair: the value and the error (\<open>None\<close> is \<^verbatim>\<open>nil\<close>).\<close>

fun parseTagId :: "FieldValue \<Rightarrow> 32 word \<times> error option" where
  "parseTagId fieldValue =
     (case Value fieldValue of
        INil \<Rightarrow> (0, None)
      | IString strVal \<Rightarrow>
          if length strVal \<le> 0 then (0, None)
          else (case ParseInt strVal of
                  (tagId, Some err) \<Rightarrow> (0, Some (TagIdConvert err))
                | (tagId, None) \<Rightarrow>
                    if tagId \<le> 0 then (0, Some TagIdNonPositive)
                    else (word_of_int tagId, None))
      | _ \<Rightarrow> (0, Some TagIdNotString))"

text \<open>\<^verbatim>\<open>trainingMap["Label"].(string)\<close>: a missing key reads as nil, which is no string.\<close>

fun extractLabelFromTrainingMap :: "(string \<Rightarrow> iface option) \<Rightarrow> string \<times> error option" where
  "extractLabelFromTrainingMap trainingMap =
     (case trainingMap ''Label'' of
        Some (IString label) \<Rightarrow> (label, None)
      | _ \<Rightarrow> ('''', Some TrainingLabelNotString))"

text \<open>
  The loop of \<^verbatim>\<open>parseTrainingLabels\<close> over the items, with the labels appended so far.
  A nil slice and an empty one are both \<open>[]\<close>.
\<close>

fun parseTrainingLabels_loop :: "string list \<Rightarrow> iface list \<Rightarrow> string list \<times> error option" where
  "parseTrainingLabels_loop labels [] = (labels, None)"
| "parseTrainingLabels_loop labels (t # ts) =
     (case t of
        IMap trainingMap \<Rightarrow>
          (case extractLabelFromTrainingMap trainingMap of
             (label, Some err) \<Rightarrow> ([], Some err)
           | (label, None) \<Rightarrow> parseTrainingLabels_loop (labels @ [label]) ts)
      | _ \<Rightarrow> ([], Some TrainingItemNotMap))"

fun parseTrainingLabels :: "FieldValue \<Rightarrow> string list \<times> error option" where
  "parseTrainingLabels fieldValue =
     (case Value fieldValue of
        ISlice trainingValues \<Rightarrow> parseTrainingLabels_loop [] trainingValues
      | _ \<Rightarrow> ([], Some TrainingNotSlice))"

text \<open>The two \<^verbatim>\<open>for ... range c.FieldValues\<close> loops, returning at the first match.\<close>

fun ExtractTagID_loop :: "Config \<Rightarrow> FieldValue list \<Rightarrow> 32 word \<times> error option" where
  "ExtractTagID_loop cfg [] = (0, None)"
| "ExtractTagID_loop cfg (val # vals) =
     (if FieldName val = TagIdFieldName cfg then parseTagId val
      else ExtractTagID_loop cfg vals)"

definition ExtractTagID :: "Contact \<Rightarrow> Config \<Rightarrow> 32 word \<times> error option" where
  "ExtractTagID c cfg = ExtractTagID_loop cfg (FieldValues c)"

fun ExtractTrainingLabels_loop :: "Config \<Rightarrow> FieldValue list \<Rightarrow> string list \<times> error option" where
  "ExtractTrainingLabels_loop cfg [] = ([], None)"
| "ExtractTrainingLabels_loop cfg (val # vals) =
     (if FieldName val = TrainingFieldName cfg then parseTrainingLabels val
      else ExtractTrainingLabels_loop cfg vals)"

definition ExtractTrainingLabels :: "Contact \<Rightarrow> Config \<Rightarrow> string list \<times> error option" where
  "ExtractTrainingLabels c cfg = ExtractTrainingLabels_loop cfg (FieldValues c)"

definition ExtractContactData :: "Contact \<Rightarrow> Config \<Rightarrow> int \<times> 32 word \<times> string list \<times> error option" where
  "ExtractContactData c cfg =
     (case ExtractTagID c cfg of
        (tagID, Some err) \<Rightarrow> (0, 0, [], Some (ContactTagIdError (Id' c) err))
      | (tagID, None) \<Rightarrow>
          (case ExtractTrainingLabels c cfg of
             (trainingLabels, Some err) \<Rightarrow>
               (Id' c, tagID, trainingLabels, Some (ContactTrainingError (Id' c) err))
           | (trainingLabels, None) \<Rightarrow> (Id' c, tagID, trainingLabels, None)))"

section \<open>Decimal strings, in the words of the specification\<close>

text \<open>
  What the specification calls a decimal string and the integer it denotes, written
  independently of \<open>ParseInt\<close>: a decimal string is a non-empty sequence of the bytes
  \<^verbatim>\<open>'0'\<close> to \<^verbatim>\<open>'9'\<close>; a numeric string is a decimal string behind at most one sign.
\<close>

definition isDigit :: "char \<Rightarrow> bool" where
  "isDigit ch = (48 \<le> (of_char ch :: nat) \<and> (of_char ch :: nat) \<le> 57)"

definition decimal :: "nat \<Rightarrow> string \<Rightarrow> nat" where
  "decimal n s = foldl (\<lambda>a ch. a * 10 + (of_char ch - 48)) n s"

definition decimal_string :: "string \<Rightarrow> bool" where
  "decimal_string s = (s \<noteq> [] \<and> list_all isDigit s)"

definition decimal_value :: "string \<Rightarrow> nat" where
  "decimal_value s = decimal 0 s"

fun numeric :: "string \<Rightarrow> bool" where
  "numeric [] = False"
| "numeric (c # cs) =
     (if c = CHR ''+'' \<or> c = CHR ''-'' then decimal_string cs else decimal_string (c # cs))"

fun numeric_value :: "string \<Rightarrow> int" where
  "numeric_value [] = 0"
| "numeric_value (c # cs) =
     (if c = CHR ''-'' then - int (decimal_value cs)
      else if c = CHR ''+'' then int (decimal_value cs)
      else int (decimal_value (c # cs)))"

text \<open>The field a \<^verbatim>\<open>range\<close> loop stops at: the first one of the given name.\<close>

definition firstField :: "string \<Rightarrow> Contact \<Rightarrow> FieldValue option" where
  "firstField name c = find (\<lambda>val. FieldName val = name) (FieldValues c)"

text \<open>The dynamic shapes the extractors test for.\<close>

fun is_nil :: "iface \<Rightarrow> bool" where
  "is_nil INil = True"
| "is_nil _ = False"

fun is_string :: "iface \<Rightarrow> bool" where
  "is_string (IString s) = True"
| "is_string _ = False"

fun is_slice :: "iface \<Rightarrow> bool" where
  "is_slice (ISlice ts) = True"
| "is_slice _ = False"

text \<open>A list item that is a record with a string \<^verbatim>\<open>"Label"\<close>, and that label.\<close>

fun label_record :: "iface \<Rightarrow> bool" where
  "label_record (IMap m) = (case m ''Label'' of Some (IString l) \<Rightarrow> True | _ \<Rightarrow> False)"
| "label_record _ = False"

fun label_of :: "iface \<Rightarrow> string" where
  "label_of (IMap m) = (case m ''Label'' of Some (IString l) \<Rightarrow> l | _ \<Rightarrow> [])"
| "label_of _ = []"

section \<open>The reconcile cycle of \<^verbatim>\<open>main.go\<close>\<close>

text \<open>
  \<^verbatim>\<open>updateDatabaseFromWildApricot\<close> calls two methods of package \<^verbatim>\<open>services\<close>, which is
  not part of the sources at hand: they are parameters. \<open>GetContacts\<close> runs on the state
  of the Wild Apricot service and returns the contacts and an error;
  \<open>ProcessContactsData\<close> runs on the store behind the database service and returns an
  error. The world also keeps a trace of what the function did: each log line and each
  call of a service method, in order.
\<close>

datatype 'e log_line =
    Fetching          \<comment> \<open>"Fetching contacts from Wild Apricot and updating database..."\<close>
  | FetchFailed 'e    \<comment> \<open>"Failed to fetch contacts: %v"\<close>
  | UpdateFailed 'e   \<comment> \<open>"Failed to update database: %v"\<close>
  | Updated           \<comment> \<open>"Database successfully updated with latest WA contact data."\<close>

datatype 'e event =
    Log "'e log_line"
  | GetContacts_called int
  | ProcessContactsData_called "Contact list"

record ('w, 's, 'e) world =
  waService :: 'w
  store :: 's
  trace :: "'e event list"

definition emit :: "'e event \<Rightarrow> ('w, 's, 'e) world \<Rightarrow> ('w, 's, 'e) world" where
  "emit ev w = w\<lparr>trace := trace w @ [ev]\<rparr>"

definition updateDatabaseFromWildApricot ::
  "(int \<Rightarrow> 'w \<Rightarrow> (Contact list \<times> 'e option) \<times> 'w) \<Rightarrow>
   (Contact list \<Rightarrow> 's \<Rightarrow> 'e option \<times> 's) \<Rightarrow>
   int \<Rightarrow> ('w, 's, 'e) world \<Rightarrow> ('w, 's, 'e) world" where
  "updateDatabaseFromWildApricot GetContacts ProcessContactsData accountId w =
     (let w1 = emit (Log Fetching) w;
          ((contacts, err), wa) = GetContacts accountId (waService w1);
          w2 = emit (GetContacts_called accountId) (w1\<lparr>waService := wa\<rparr>)
      in case err of
           Some e \<Rightarrow> emit (Log (FetchFailed e)) w2
         | None \<Rightarrow>
             (let (err', st) = ProcessContactsData contacts (store w2);
                  w3 = emit (ProcessContactsData_called contacts) (w2\<lparr>store := st\<rparr>)
              in case err' of
                   Some e \<Rightarrow> emit (Log (UpdateFailed e)) w3
                 | None \<Rightarrow> emit (Log Updated) w3))"

section \<open>Sample data\<close>

text \<open>A configuration, a field, and a contact with the given id and fields, for the instances below.\<close>

definition cfg0 :: Config where
  "cfg0 = \<lparr>TagIdFieldName = ''TagId'', TrainingFieldName = ''Safety Training''\<rparr>"

definition field :: "string \<Rightarrow> iface \<Rightarrow> FieldValue" where
  "field name v = \<lparr>FieldName = name, Value = v, SystemCode = []\<rparr>"

definition contact :: "int \<Rightarrow> FieldValue list \<Rightarrow> Contact" where
  "contact i fvs =
     \<lparr>FirstName = [], LastName = [], Email = [], DisplayName = [], Organization = [],
      ProfileLastUpdated = [], FieldValues = fvs, Id' = i, Url = [],
      IsAccountAdministrator = False, TermsOfUseAccepted = False, Status = []\<rparr>"

section \<open>\<open>ParseInt\<close> on decimal strings\<close>

lemma decimal_Nil [simp]: "decimal n [] = n"
  by (simp add: decimal_def)

lemma decimal_Cons [simp]: "decimal n (ch # cs) = decimal (n * 10 + (of_char ch - 48)) cs"
  by (simp add: decimal_def)

lemma decimal_ge: "n \<le> decimal n s"
proof (induction s arbitrary: n)
  case Nil
  show ?case by simp
next
  case (Cons ch cs)
  have "n \<le> n * 10 + (of_char ch - 48)" by simp
  also have "\<dots> \<le> decimal (n * 10 + (of_char ch - 48)) cs" by (rule Cons.IH)
  finally show ?case by simp
qed

lemma digitVal_isDigit: "isDigit ch \<Longrightarrow> digitVal ch = Some (of_char ch - 48)"
  by (simp add: isDigit_def digitVal_def)

lemma isDigit_lt: "isDigit ch \<Longrightarrow> (of_char ch :: nat) - 48 < 10"
  by (auto simp add: isDigit_def)

text \<open>A letter's value is at least 10, so in base 10 only the digits pass the base check.\<close>

lemma digitVal_lt_base:
  "digitVal ch = Some d \<Longrightarrow> d < 10 \<Longrightarrow> isDigit ch \<and> d = of_char ch - 48"
  by (auto simp add: isDigit_def digitVal_def Let_def split: if_splits)

text \<open>On digits whose value fits 32 bits, no check of the loop fires.\<close>

lemma ParseUint_loop_complete:
  "list_all isDigit s \<Longrightarrow> decimal n s < 2 ^ 32 \<Longrightarrow> ParseUint_loop n s = (decimal n s, None)"
proof (induction s arbitrary: n)
  case Nil
  show ?case by simp
next
  case (Cons ch cs)
  let ?d = "(of_char ch :: nat) - 48"
  let ?n1 = "n * 10 + ?d"
  from Cons.prems have dig: "isDigit ch" and rest: "list_all isDigit cs" by simp_all
  from Cons.prems have bound: "decimal ?n1 cs < 2 ^ 32" by simp
  have n1: "?n1 < 2 ^ 32" using decimal_ge [of ?n1 cs] bound by linarith
  have d: "?d < 10" using dig by (rule isDigit_lt)
  have IH: "ParseUint_loop ?n1 cs = (decimal ?n1 cs, None)"
    using rest bound by (rule Cons.IH)
  have small: "n * 10 < 2 ^ 64" "?n1 < 2 ^ 64" "n < 1844674407370955162" "?n1 \<le> 4294967295"
    using n1 by simp_all
  show ?case
    using d small IH
    by (simp add: digitVal_isDigit [OF dig] base_def bitSize_def maxUint64_def Let_def)
qed

text \<open>The overflow test \<^verbatim>\<open>n1 < n\<close> of the loop: passing it means the sum did not wrap.\<close>

lemma wrap_add:
  assumes "d < (10 :: nat)" "m < 2 ^ 64" "\<not> (m + d) mod 2 ^ 64 < m"
  shows "(m + d) mod 2 ^ 64 = m + d"
proof (cases "m + d < 2 ^ 64")
  case True
  then show ?thesis by simp
next
  case False
  then have "(m + d) mod 2 ^ 64 = m + d - 2 ^ 64"
    using assms(1,2) by (simp add: mod_if)
  with assms False show ?thesis by simp
qed

text \<open>A run of the loop that ends without error has read digits only, and their value.\<close>

lemma ParseUint_loop_sound:
  "ParseUint_loop n s = (u, None) \<Longrightarrow> list_all isDigit s \<and> u = decimal n s"
proof (induction s arbitrary: n)
  case Nil
  then show ?case by simp
next
  case (Cons ch cs)
  from Cons.prems obtain d where dv: "digitVal ch = Some d"
    by (cases "digitVal ch") simp_all
  from Cons.prems dv have d: "d < 10"
    by (simp add: base_def split: if_splits)
  from Cons.prems dv d have cut: "n < 1844674407370955162"
    by (simp add: base_def maxUint64_def split: if_splits)
  then have m: "n * 10 < 2 ^ 64" by simp
  from Cons.prems dv d cut m have nowrap: "\<not> (n * 10 + d) mod 2 ^ 64 < n * 10"
    by (simp add: base_def maxUint64_def Let_def split: if_splits)
  have n1: "(n * 10 + d) mod 2 ^ 64 = n * 10 + d"
    using d m nowrap by (rule wrap_add)
  from Cons.prems dv d cut m nowrap n1 have rec: "ParseUint_loop (n * 10 + d) cs = (u, None)"
    by (simp add: base_def maxUint64_def Let_def split: if_splits)
  from digitVal_lt_base [OF dv d] have dig: "isDigit ch" and dd: "d = of_char ch - 48"
    by simp_all
  from Cons.IH [OF rec] dig dd show ?case by simp
qed

lemma ParseUint_sound:
  "ParseUint s = (u, None) \<Longrightarrow> decimal_string s \<and> u = decimal_value s"
  using ParseUint_loop_sound [of 0 s u]
  by (simp add: ParseUint_def decimal_string_def decimal_value_def split: if_splits)

lemma ParseUint_complete:
  "decimal_string s \<Longrightarrow> decimal_value s < 2 ^ 32 \<Longrightarrow> ParseUint s = (decimal_value s, None)"
  using ParseUint_loop_complete [of s 0]
  by (simp add: ParseUint_def decimal_string_def decimal_value_def)

text \<open>A range error of \<open>ParseUint\<close> comes with the largest 32-bit value.\<close>

lemma ParseUint_loop_ErrRange:
  "ParseUint_loop n s = (u, Some ErrRange) \<Longrightarrow> u = 4294967295"
  by (induction s arbitrary: n) (auto simp add: Let_def bitSize_def split: option.splits if_splits)

lemma ParseUint_ErrRange:
  "ParseUint s = (u, Some ErrRange) \<Longrightarrow> u = 4294967295"
  using ParseUint_loop_ErrRange [of 0 s u] by (simp add: ParseUint_def split: if_splits)

lemma isDigit_not_sign: "isDigit c \<Longrightarrow> c \<noteq> CHR ''+'' \<and> c \<noteq> CHR ''-''"
  by (auto simp add: isDigit_def)

text \<open>\<open>ParseInt\<close> accepts every decimal string below \<open>2 ^ 31\<close>, with its value.\<close>

lemma ParseInt_complete:
  assumes "decimal_string s" "decimal_value s < 2 ^ 31"
  shows "ParseInt s = (int (decimal_value s), None)"
proof -
  from assms(1) obtain c cs where s: "s = c # cs" and c: "isDigit c"
    by (cases s) (simp_all add: decimal_string_def)
  have pu: "ParseUint (c # cs) = (decimal_value (c # cs), None)"
    using ParseUint_complete [of s] assms s by simp
  show ?thesis
    using isDigit_not_sign [OF c] pu assms(2)
    by (simp add: s bitSize_def int64_def)
qed

text \<open>What \<open>ParseInt\<close> accepts is a numeric string, and the result is its value.\<close>

lemma ParseInt_sound:
  assumes "ParseInt s = (n, None)"
  shows "numeric s \<and> n = numeric_value s"
proof (cases s)
  case Nil
  with assms show ?thesis by simp
next
  case (Cons c cs)
  let ?s' = "if c = CHR ''+'' \<or> c = CHR ''-'' then cs else c # cs"
  obtain un err where pu: "ParseUint ?s' = (un, err)" by (cases "ParseUint ?s'")
  from assms Cons pu have ok: "err = None \<or> err = Some ErrRange"
    by (auto simp add: Let_def split: if_splits)
  have "err \<noteq> Some ErrRange"
  proof
    assume r: "err = Some ErrRange"
    with pu have "un = 4294967295" by (simp add: ParseUint_ErrRange)
    with assms Cons pu r show False
      by (simp add: Let_def bitSize_def split: if_splits)
  qed
  with ok have err: "err = None" by simp
  from pu err have dec: "decimal_string ?s'" and un: "un = decimal_value ?s'"
    using ParseUint_sound [of ?s' un] by simp_all
  from assms Cons pu err have small: "un \<le> 2 ^ 31"
    by (simp add: Let_def bitSize_def split: if_splits)
  then have i64: "int64 un = int un" by (simp add: int64_def)
  from assms Cons pu err i64 have n: "n = (if c = CHR ''-'' then - int un else int un)"
    by (simp add: Let_def bitSize_def split: if_splits)
  show ?thesis
    using dec un n by (auto simp add: Cons)
qed

section \<open>The loops over the field list\<close>

lemma ExtractTagID_loop_find:
  "ExtractTagID_loop cfg vals =
     (case find (\<lambda>val. FieldName val = TagIdFieldName cfg) vals of
        None \<Rightarrow> (0, None) | Some fv \<Rightarrow> parseTagId fv)"
  by (induction vals) simp_all

lemma ExtractTagID_first:
  "ExtractTagID c cfg =
     (case firstField (TagIdFieldName cfg) c of None \<Rightarrow> (0, None) | Some fv \<Rightarrow> parseTagId fv)"
  by (simp add: ExtractTagID_def firstField_def ExtractTagID_loop_find)

lemma ExtractTrainingLabels_loop_find:
  "ExtractTrainingLabels_loop cfg vals =
     (case find (\<lambda>val. FieldName val = TrainingFieldName cfg) vals of
        None \<Rightarrow> ([], None) | Some fv \<Rightarrow> parseTrainingLabels fv)"
  by (induction vals) simp_all

lemma ExtractTrainingLabels_first:
  "ExtractTrainingLabels c cfg =
     (case firstField (TrainingFieldName cfg) c of
        None \<Rightarrow> ([], None) | Some fv \<Rightarrow> parseTrainingLabels fv)"
  by (simp add: ExtractTrainingLabels_def firstField_def ExtractTrainingLabels_loop_find)

lemma find_append_first:
  "\<forall>v \<in> set pre. \<not> P v \<Longrightarrow> P fv \<Longrightarrow> find P (pre @ fv # rest) = Some fv"
  by (induction pre) simp_all

section \<open>The training list\<close>

lemma extractLabel_good:
  "label_record (IMap m) \<Longrightarrow> extractLabelFromTrainingMap m = (label_of (IMap m), None)"
  by (auto split: option.splits iface.splits)

lemma extractLabel_bad:
  "\<not> label_record (IMap m) \<Longrightarrow> extractLabelFromTrainingMap m = ([], Some TrainingLabelNotString)"
  by (auto split: option.splits iface.splits)

text \<open>When every item is a record with a string label, the labels come out in list order.\<close>

lemma parseTrainingLabels_loop_good:
  "list_all label_record ts \<Longrightarrow>
     parseTrainingLabels_loop labels ts = (labels @ map label_of ts, None)"
proof (induction ts arbitrary: labels)
  case Nil
  show ?case by simp
next
  case (Cons t ts)
  from Cons.prems obtain m where t: "t = IMap m"
    by (cases t) simp_all
  from Cons.prems t have "extractLabelFromTrainingMap m = (label_of (IMap m), None)"
    using extractLabel_good by simp
  moreover from Cons.prems have "list_all label_record ts" by simp
  ultimately show ?case
    using Cons.IH [of "labels @ [label_of (IMap m)]"] t by simp
qed

text \<open>One item of another shape ends the loop with an error and without labels.\<close>

lemma parseTrainingLabels_loop_bad:
  "\<exists>t \<in> set ts. \<not> label_record t \<Longrightarrow>
     \<exists>e. parseTrainingLabels_loop labels ts = ([], Some e)"
proof (induction ts arbitrary: labels)
  case Nil
  then show ?case by simp
next
  case (Cons t ts)
  show ?case
  proof (cases "label_record t")
    case True
    then obtain m where t: "t = IMap m" by (cases t) simp_all
    from True t have ok: "extractLabelFromTrainingMap m = (label_of (IMap m), None)"
      using extractLabel_good by simp
    from Cons.prems True have "\<exists>t \<in> set ts. \<not> label_record t" by auto
    then have "\<exists>e. parseTrainingLabels_loop (labels @ [label_of (IMap m)]) ts = ([], Some e)"
      by (rule Cons.IH)
    with t ok show ?thesis by simp
  next
    case False
    show ?thesis
    proof (cases t)
      case (IMap m)
      with False have "extractLabelFromTrainingMap m = ([], Some TrainingLabelNotString)"
        using extractLabel_bad by simp
      with IMap show ?thesis by simp
    qed simp_all
  qed
qed

lemma parseTrainingLabels_loop_error_nil:
  "parseTrainingLabels_loop labels ts = (ls, Some e) \<Longrightarrow> ls = []"
  by (induction ts arbitrary: labels)
     (auto split: iface.splits option.splits prod.splits)

lemma parseTrainingLabels_error_nil:
  "parseTrainingLabels fv = (ls, Some e) \<Longrightarrow> ls = []"
  by (auto simp add: parseTrainingLabels_loop_error_nil split: iface.splits)

lemma ExtractTrainingLabels_error_nil:
  "ExtractTrainingLabels c cfg = (ls, Some e) \<Longrightarrow> ls = []"
  by (auto simp add: ExtractTrainingLabels_first parseTrainingLabels_error_nil
      simp del: parseTrainingLabels.simps split: option.splits)

lemmas sample_defs = cfg0_def field_def contact_def firstField_def

section \<open>Claims about \<open>ExtractTagID\<close>\<close>

text \<open>
  As stated, C1 promises the value for every decimal string that denotes a positive
  integer. The tag-id field \<^verbatim>\<open>"2147483648"\<close> is such a string, yet \<open>ParseInt\<close> with bit
  size 32 reports a range error and \<open>ExtractTagID\<close> returns 0 with a conversion error.
\<close>

theorem ExtractTagID_decimal_counterexample:
  "firstField (TagIdFieldName cfg0) (contact 1 [field ''TagId'' (IString ''2147483648'')])
     = Some (field ''TagId'' (IString ''2147483648''))
   \<and> decimal_string ''2147483648''
   \<and> 0 < decimal_value ''2147483648''
   \<and> ExtractTagID (contact 1 [field ''TagId'' (IString ''2147483648'')]) cfg0
     = (0, Some (TagIdConvert ErrRange))"
  by (simp add: sample_defs ExtractTagID_def decimal_string_def decimal_value_def isDigit_def
      ParseUint_def digitVal_def base_def bitSize_def maxUint64_def)

text \<open>
  C1, amended: for every contact whose configured tag-id field (the first field of that
  name) holds a non-empty decimal string whose value is positive and at most
  \<open>2147483647 = 2 ^ 31 - 1\<close>, \<open>ExtractTagID\<close> returns that value as a uint32, unchanged
  by the conversion, with no error.
\<close>

theorem ExtractTagID_decimal:
  assumes "firstField (TagIdFieldName cfg) c = Some fv"
    and "Value fv = IString s"
    and "decimal_string s"
    and "0 < decimal_value s"
    and "decimal_value s < 2 ^ 31"
  shows "ExtractTagID c cfg = (word_of_nat (decimal_value s), None)
         \<and> unat (word_of_nat (decimal_value s) :: 32 word) = decimal_value s"
proof -
  from assms(3) have ne: "s \<noteq> []" by (simp add: decimal_string_def)
  have p: "ParseInt s = (int (decimal_value s), None)"
    using assms(3,5) by (rule ParseInt_complete)
  have "parseTagId fv = (word_of_nat (decimal_value s), None)"
    using assms(2,4) ne p by simp
  then have r: "ExtractTagID c cfg = (word_of_nat (decimal_value s), None)"
    using assms(1) by (simp add: ExtractTagID_first)
  have "decimal_value s < 2 ^ LENGTH(32)" using assms(5) by simp
  then have "unat (word_of_nat (decimal_value s) :: 32 word) = decimal_value s"
    by (simp add: of_nat_inverse)
  with r show ?thesis by simp
qed

theorem ExtractTagID_decimal_witness:
  "firstField (TagIdFieldName cfg0) (contact 1 [field ''TagId'' (IString ''1023'')])
     = Some (field ''TagId'' (IString ''1023''))
   \<and> Value (field ''TagId'' (IString ''1023'')) = IString ''1023''
   \<and> decimal_string ''1023''
   \<and> 0 < decimal_value ''1023''
   \<and> decimal_value ''1023'' < 2 ^ 31
   \<and> ExtractTagID (contact 1 [field ''TagId'' (IString ''1023'')]) cfg0 = (1023, None)"
proof -
  have h1: "firstField (TagIdFieldName cfg0) (contact 1 [field ''TagId'' (IString ''1023'')])
     = Some (field ''TagId'' (IString ''1023''))"
    by (simp add: sample_defs)
  have h2: "Value (field ''TagId'' (IString ''1023'')) = IString ''1023''"
    by (simp add: field_def)
  have h3: "decimal_string ''1023''"
    by (simp add: decimal_string_def isDigit_def)
  have v: "decimal_value ''1023'' = 1023"
    by (simp add: decimal_value_def)
  have h4: "0 < decimal_value ''1023''" and h5: "decimal_value ''1023'' < 2 ^ 31"
    by (simp_all add: v)
  show ?thesis
    using h1 h2 h3 h4 h5 ExtractTagID_decimal [OF h1 h2 h3 h4 h5] by (simp add: v)
qed

text \<open>
  As stated, C2 counts a nil value among the values that are not a string and promises
  an error for it. \<open>parseTagId\<close> tests for nil first and returns 0 with no error.
\<close>

theorem ExtractTagID_not_string_counterexample:
  "firstField (TagIdFieldName cfg0) (contact 1 [field ''TagId'' INil])
     = Some (field ''TagId'' INil)
   \<and> \<not> is_string (Value (field ''TagId'' INil))
   \<and> ExtractTagID (contact 1 [field ''TagId'' INil]) cfg0 = (0, None)"
  by (simp add: sample_defs ExtractTagID_def)

text \<open>
  C2, amended: for every contact whose configured tag-id field is present with a value
  that is neither nil nor a string, \<open>ExtractTagID\<close> fails with the error
  "TagId value is not a string" (and the tag id 0).
\<close>

theorem ExtractTagID_not_string:
  assumes "firstField (TagIdFieldName cfg) c = Some fv"
    and "\<not> is_nil (Value fv)"
    and "\<not> is_string (Value fv)"
  shows "ExtractTagID c cfg = (0, Some TagIdNotString)"
proof -
  have "parseTagId fv = (0, Some TagIdNotString)"
    using assms(2,3) by (cases "Value fv") simp_all
  then show ?thesis
    using assms(1) by (simp add: ExtractTagID_first)
qed

theorem ExtractTagID_not_string_witness:
  "firstField (TagIdFieldName cfg0) (contact 1 [field ''TagId'' (IFloat64 0)])
     = Some (field ''TagId'' (IFloat64 0))
   \<and> \<not> is_nil (Value (field ''TagId'' (IFloat64 0)))
   \<and> \<not> is_string (Value (field ''TagId'' (IFloat64 0)))
   \<and> ExtractTagID (contact 1 [field ''TagId'' (IFloat64 0)]) cfg0 = (0, Some TagIdNotString)"
proof -
  have h1: "firstField (TagIdFieldName cfg0) (contact 1 [field ''TagId'' (IFloat64 0)])
     = Some (field ''TagId'' (IFloat64 0))"
    by (simp add: sample_defs)
  have h2: "\<not> is_nil (Value (field ''TagId'' (IFloat64 0)))"
    and h3: "\<not> is_string (Value (field ''TagId'' (IFloat64 0)))"
    by (simp_all add: field_def)
  show ?thesis
    using h1 h2 h3 ExtractTagID_not_string [OF h1 h2 h3] by simp
qed

text \<open>
  C3: \<open>ExtractTagID\<close> returns 0 with no error both when no field of the contact has the
  configured tag-id name and when the tag-id field is present with the empty string.
\<close>

theorem ExtractTagID_absent_or_empty:
  assumes "firstField (TagIdFieldName cfg) c = None
           \<or> (\<exists>fv. firstField (TagIdFieldName cfg) c = Some fv \<and> Value fv = IString [])"
  shows "ExtractTagID c cfg = (0, None)"
  using assms by (auto simp add: ExtractTagID_first)

theorem ExtractTagID_absent_or_empty_witness:
  "firstField (TagIdFieldName cfg0) (contact 2 [field ''Phone'' (IString ''555'')]) = None
   \<and> ExtractTagID (contact 2 [field ''Phone'' (IString ''555'')]) cfg0 = (0, None)
   \<and> firstField (TagIdFieldName cfg0) (contact 2 [field ''TagId'' (IString [])])
       = Some (field ''TagId'' (IString []))
   \<and> Value (field ''TagId'' (IString [])) = IString []
   \<and> ExtractTagID (contact 2 [field ''TagId'' (IString [])]) cfg0 = (0, None)"
proof -
  have h1: "firstField (TagIdFieldName cfg0) (contact 2 [field ''Phone'' (IString ''555'')]) = None"
    by (simp add: sample_defs)
  have h2: "firstField (TagIdFieldName cfg0) (contact 2 [field ''TagId'' (IString [])])
       = Some (field ''TagId'' (IString []))"
    by (simp add: sample_defs)
  have h3: "Value (field ''TagId'' (IString [])) = IString []"
    by (simp add: field_def)
  have a: "ExtractTagID (contact 2 [field ''Phone'' (IString ''555'')]) cfg0 = (0, None)"
    using h1 by (intro ExtractTagID_absent_or_empty) simp
  have b: "ExtractTagID (contact 2 [field ''TagId'' (IString [])]) cfg0 = (0, None)"
    using h2 h3 by (intro ExtractTagID_absent_or_empty) simp
  show ?thesis
    using h1 h2 h3 a b by simp
qed

text \<open>
  C4: for every contact whose configured tag-id field holds a non-empty string that is
  not numeric (a decimal string behind at most one sign), or that is numeric with a
  value less than or equal to zero, \<open>ExtractTagID\<close> returns an error (and the tag id 0).
\<close>

theorem ExtractTagID_malformed:
  assumes "firstField (TagIdFieldName cfg) c = Some fv"
    and "Value fv = IString s"
    and "s \<noteq> []"
    and "\<not> numeric s \<or> numeric_value s \<le> 0"
  shows "\<exists>e. ExtractTagID c cfg = (0, Some e)"
proof -
  obtain n err where p: "ParseInt s = (n, err)" by (cases "ParseInt s")
  have "\<exists>e. parseTagId fv = (0, Some e)"
  proof (cases err)
    case (Some ne)
    with p assms(2,3) show ?thesis by simp
  next
    case None
    with p have "numeric s \<and> n = numeric_value s" by (simp add: ParseInt_sound)
    with assms(4) have "n \<le> 0" by auto
    with p None assms(2,3) show ?thesis by simp
  qed
  then show ?thesis
    using assms(1) by (simp add: ExtractTagID_first)
qed

theorem ExtractTagID_malformed_witness:
  "firstField (TagIdFieldName cfg0) (contact 3 [field ''TagId'' (IString ''-5'')])
     = Some (field ''TagId'' (IString ''-5''))
   \<and> numeric_value ''-5'' \<le> 0
   \<and> ExtractTagID (contact 3 [field ''TagId'' (IString ''-5'')]) cfg0
       = (0, Some TagIdNonPositive)
   \<and> firstField (TagIdFieldName cfg0) (contact 3 [field ''TagId'' (IString ''12ab'')])
     = Some (field ''TagId'' (IString ''12ab''))
   \<and> \<not> numeric ''12ab''
   \<and> ExtractTagID (contact 3 [field ''TagId'' (IString ''12ab'')]) cfg0
       = (0, Some (TagIdConvert ErrSyntax))"
proof -
  have h1: "firstField (TagIdFieldName cfg0) (contact 3 [field ''TagId'' (IString ''-5'')])
     = Some (field ''TagId'' (IString ''-5''))"
    by (simp add: sample_defs)
  have h2: "Value (field ''TagId'' (IString ''-5'')) = IString ''-5''"
    by (simp add: field_def)
  have h3: "''-5'' \<noteq> []" by simp
  have h4: "numeric_value ''-5'' \<le> 0" by (simp add: decimal_value_def)
  have k1: "firstField (TagIdFieldName cfg0) (contact 3 [field ''TagId'' (IString ''12ab'')])
     = Some (field ''TagId'' (IString ''12ab''))"
    by (simp add: sample_defs)
  have k2: "Value (field ''TagId'' (IString ''12ab'')) = IString ''12ab''"
    by (simp add: field_def)
  have k3: "''12ab'' \<noteq> []" by simp
  have k4: "\<not> numeric ''12ab''" by (simp add: decimal_string_def isDigit_def)
  have a: "\<exists>e. ExtractTagID (contact 3 [field ''TagId'' (IString ''-5'')]) cfg0 = (0, Some e)"
    using h4 by (intro ExtractTagID_malformed [OF h1 h2 h3]) simp
  have b: "\<exists>e. ExtractTagID (contact 3 [field ''TagId'' (IString ''12ab'')]) cfg0 = (0, Some e)"
    using k4 by (intro ExtractTagID_malformed [OF k1 k2 k3]) simp
  have a': "ExtractTagID (contact 3 [field ''TagId'' (IString ''-5'')]) cfg0
       = (0, Some TagIdNonPositive)"
    using a by (simp add: sample_defs ExtractTagID_def ParseUint_def digitVal_def base_def
        bitSize_def maxUint64_def int64_def)
  have b': "ExtractTagID (contact 3 [field ''TagId'' (IString ''12ab'')]) cfg0
       = (0, Some (TagIdConvert ErrSyntax))"
    using b by (simp add: sample_defs ExtractTagID_def ParseUint_def digitVal_def base_def
        bitSize_def maxUint64_def int64_def lower_def)
  show ?thesis
    using h1 h4 k1 k4 a' b' by simp
qed

section \<open>Claims about \<open>ExtractTrainingLabels\<close> and \<open>ExtractContactData\<close>\<close>

text \<open>
  C5: \<open>ExtractTrainingLabels\<close> returns an empty label sequence with no error when no
  field has the configured training name; it fails when the training field is present
  with a value that is not a list; and when the value is a list with an item that is not
  a record with a string \<^verbatim>\<open>"Label"\<close>, it fails and returns no label at all, whatever the
  other items hold.
\<close>

theorem ExtractTrainingLabels_cases:
  "(firstField (TrainingFieldName cfg) c = None \<longrightarrow>
      ExtractTrainingLabels c cfg = ([], None))
   \<and> (firstField (TrainingFieldName cfg) c = Some fv \<and> \<not> is_slice (Value fv) \<longrightarrow>
      ExtractTrainingLabels c cfg = ([], Some TrainingNotSlice))
   \<and> (firstField (TrainingFieldName cfg) c = Some fv \<and> Value fv = ISlice ts
        \<and> \<not> list_all label_record ts \<longrightarrow>
      (\<exists>e. ExtractTrainingLabels c cfg = ([], Some e)))"
proof (intro conjI impI)
  assume "firstField (TrainingFieldName cfg) c = None"
  then show "ExtractTrainingLabels c cfg = ([], None)"
    by (simp add: ExtractTrainingLabels_first)
next
  assume a: "firstField (TrainingFieldName cfg) c = Some fv \<and> \<not> is_slice (Value fv)"
  then have "parseTrainingLabels fv = ([], Some TrainingNotSlice)"
    by (cases "Value fv") simp_all
  with a show "ExtractTrainingLabels c cfg = ([], Some TrainingNotSlice)"
    by (simp add: ExtractTrainingLabels_first)
next
  assume a: "firstField (TrainingFieldName cfg) c = Some fv \<and> Value fv = ISlice ts
        \<and> \<not> list_all label_record ts"
  then have "\<exists>t \<in> set ts. \<not> label_record t"
    by (simp add: list_all_iff)
  then have "\<exists>e. parseTrainingLabels_loop [] ts = ([], Some e)"
    by (rule parseTrainingLabels_loop_bad)
  with a show "\<exists>e. ExtractTrainingLabels c cfg = ([], Some e)"
    by (simp add: ExtractTrainingLabels_first)
qed

theorem ExtractTrainingLabels_cases_witness:
  "firstField (TrainingFieldName cfg0) (contact 4 [field ''TagId'' (IString ''7'')]) = None
   \<and> ExtractTrainingLabels (contact 4 [field ''TagId'' (IString ''7'')]) cfg0 = ([], None)
   \<and> firstField (TrainingFieldName cfg0) (contact 4 [field ''Safety Training'' (IString ''Laser'')])
       = Some (field ''Safety Training'' (IString ''Laser''))
   \<and> \<not> is_slice (Value (field ''Safety Training'' (IString ''Laser'')))
   \<and> ExtractTrainingLabels (contact 4 [field ''Safety Training'' (IString ''Laser'')]) cfg0
       = ([], Some TrainingNotSlice)
   \<and> firstField (TrainingFieldName cfg0)
        (contact 4 [field ''Safety Training''
           (ISlice [IMap [''Label'' \<mapsto> IString ''Laser''], IMap [''Label'' \<mapsto> IFloat64 0]])])
       = Some (field ''Safety Training''
           (ISlice [IMap [''Label'' \<mapsto> IString ''Laser''], IMap [''Label'' \<mapsto> IFloat64 0]]))
   \<and> \<not> list_all label_record [IMap [''Label'' \<mapsto> IString ''Laser''], IMap [''Label'' \<mapsto> IFloat64 0]]
   \<and> ExtractTrainingLabels
        (contact 4 [field ''Safety Training''
           (ISlice [IMap [''Label'' \<mapsto> IString ''Laser''], IMap [''Label'' \<mapsto> IFloat64 0]])]) cfg0
       = ([], Some TrainingLabelNotString)"
proof -
  let ?ts = "[IMap [''Label'' \<mapsto> IString ''Laser''], IMap [''Label'' \<mapsto> IFloat64 0]]"
  have h1: "firstField (TrainingFieldName cfg0) (contact 4 [field ''TagId'' (IString ''7'')]) = None"
    by (simp add: sample_defs)
  have h2: "firstField (TrainingFieldName cfg0)
        (contact 4 [field ''Safety Training'' (IString ''Laser'')])
       = Some (field ''Safety Training'' (IString ''Laser''))
     \<and> \<not> is_slice (Value (field ''Safety Training'' (IString ''Laser'')))"
    by (simp add: sample_defs)
  have h3: "firstField (TrainingFieldName cfg0) (contact 4 [field ''Safety Training'' (ISlice ?ts)])
       = Some (field ''Safety Training'' (ISlice ?ts))
     \<and> Value (field ''Safety Training'' (ISlice ?ts)) = ISlice ?ts
     \<and> \<not> list_all label_record ?ts"
    by (simp add: sample_defs)
  have a: "ExtractTrainingLabels (contact 4 [field ''TagId'' (IString ''7'')]) cfg0 = ([], None)"
    using h1 ExtractTrainingLabels_cases
      [of cfg0 "contact 4 [field ''TagId'' (IString ''7'')]" "field [] INil" "[]"]
    by simp
  have b: "ExtractTrainingLabels (contact 4 [field ''Safety Training'' (IString ''Laser'')]) cfg0
       = ([], Some TrainingNotSlice)"
    using h2 ExtractTrainingLabels_cases
      [of cfg0 "contact 4 [field ''Safety Training'' (IString ''Laser'')]"
          "field ''Safety Training'' (IString ''Laser'')" "[]"]
    by simp
  have "\<exists>e. ExtractTrainingLabels (contact 4 [field ''Safety Training'' (ISlice ?ts)]) cfg0
       = ([], Some e)"
    using h3 ExtractTrainingLabels_cases
      [of cfg0 "contact 4 [field ''Safety Training'' (ISlice ?ts)]"
          "field ''Safety Training'' (ISlice ?ts)" ?ts]
    by simp
  then have c: "ExtractTrainingLabels (contact 4 [field ''Safety Training'' (ISlice ?ts)]) cfg0
       = ([], Some TrainingLabelNotString)"
    by (simp add: sample_defs ExtractTrainingLabels_def)
  show ?thesis
    using h1 h2 h3 a b c by simp
qed

text \<open>
  C6: \<open>ExtractContactData\<close> returns a tag-id extraction error at once, with the zero
  contact id, the zero tag id and no labels; a training-label extraction error is
  returned together with the contact's id and the tag id that was extracted.
\<close>

theorem ExtractContactData_errors:
  "(ExtractTagID c cfg = (t, Some e) \<longrightarrow>
      ExtractContactData c cfg = (0, 0, [], Some (ContactTagIdError (Id' c) e)))
   \<and> (ExtractTagID c cfg = (t, None) \<and> ExtractTrainingLabels c cfg = (ls, Some e) \<longrightarrow>
      ExtractContactData c cfg = (Id' c, t, [], Some (ContactTrainingError (Id' c) e)))"
proof (intro conjI impI)
  assume "ExtractTagID c cfg = (t, Some e)"
  then show "ExtractContactData c cfg = (0, 0, [], Some (ContactTagIdError (Id' c) e))"
    by (simp add: ExtractContactData_def)
next
  assume a: "ExtractTagID c cfg = (t, None) \<and> ExtractTrainingLabels c cfg = (ls, Some e)"
  then have "ExtractTrainingLabels c cfg = (ls, Some e)" by simp
  then have "ls = []" by (rule ExtractTrainingLabels_error_nil)
  with a show "ExtractContactData c cfg = (Id' c, t, [], Some (ContactTrainingError (Id' c) e))"
    by (simp add: ExtractContactData_def)
qed

theorem ExtractContactData_errors_witness:
  "ExtractTagID (contact 5 [field ''TagId'' (IBool True)]) cfg0 = (0, Some TagIdNotString)
   \<and> ExtractContactData (contact 5 [field ''TagId'' (IBool True)]) cfg0
       = (0, 0, [], Some (ContactTagIdError 5 TagIdNotString))
   \<and> ExtractTagID
        (contact 5 [field ''TagId'' (IString ''77''), field ''Safety Training'' INil]) cfg0
       = (77, None)
   \<and> ExtractTrainingLabels
        (contact 5 [field ''TagId'' (IString ''77''), field ''Safety Training'' INil]) cfg0
       = ([], Some TrainingNotSlice)
   \<and> ExtractContactData
        (contact 5 [field ''TagId'' (IString ''77''), field ''Safety Training'' INil]) cfg0
       = (5, 77, [], Some (ContactTrainingError 5 TrainingNotSlice))"
proof -
  let ?c1 = "contact 5 [field ''TagId'' (IBool True)]"
  let ?c2 = "contact 5 [field ''TagId'' (IString ''77''), field ''Safety Training'' INil]"
  have h1: "ExtractTagID ?c1 cfg0 = (0, Some TagIdNotString)"
    by (simp add: sample_defs ExtractTagID_def)
  have h2: "ExtractTagID ?c2 cfg0 = (77, None)"
    by (simp add: sample_defs ExtractTagID_def ParseUint_def digitVal_def base_def
        bitSize_def maxUint64_def int64_def)
  have h3: "ExtractTrainingLabels ?c2 cfg0 = ([], Some TrainingNotSlice)"
    by (simp add: sample_defs ExtractTrainingLabels_def)
  have i1: "Id' ?c1 = 5" and i2: "Id' ?c2 = 5"
    by (simp_all add: contact_def)
  have a: "ExtractContactData ?c1 cfg0 = (0, 0, [], Some (ContactTagIdError 5 TagIdNotString))"
    using h1 i1 ExtractContactData_errors [of ?c1 cfg0 0 TagIdNotString "[]"]
    by simp
  have b: "ExtractContactData ?c2 cfg0 = (5, 77, [], Some (ContactTrainingError 5 TrainingNotSlice))"
    using h2 h3 i2 ExtractContactData_errors [of ?c2 cfg0 77 TrainingNotSlice "[]"]
    by simp
  show ?thesis
    using h1 h2 h3 a b by simp
qed

text \<open>
  C9: when several fields of a contact have the configured name, \<open>ExtractTagID\<close> and
  \<open>ExtractTrainingLabels\<close> each parse the first such field in list order, and the
  fields after it have no influence on the result.
\<close>

theorem extractors_first_match:
  "((\<forall>v \<in> set pre. FieldName v \<noteq> TagIdFieldName cfg) \<and> FieldName fv = TagIdFieldName cfg
      \<and> FieldValues c = pre @ fv # rest \<longrightarrow>
      ExtractTagID c cfg = parseTagId fv)
   \<and> ((\<forall>v \<in> set pre. FieldName v \<noteq> TrainingFieldName cfg) \<and> FieldName fv = TrainingFieldName cfg
      \<and> FieldValues c = pre @ fv # rest \<longrightarrow>
      ExtractTrainingLabels c cfg = parseTrainingLabels fv)"
proof (intro conjI impI)
  assume a: "(\<forall>v \<in> set pre. FieldName v \<noteq> TagIdFieldName cfg)
      \<and> FieldName fv = TagIdFieldName cfg \<and> FieldValues c = pre @ fv # rest"
  then have "find (\<lambda>val. FieldName val = TagIdFieldName cfg) (pre @ fv # rest) = Some fv"
    by (intro find_append_first) simp_all
  with a show "ExtractTagID c cfg = parseTagId fv"
    by (simp add: ExtractTagID_first firstField_def del: parseTagId.simps)
next
  assume a: "(\<forall>v \<in> set pre. FieldName v \<noteq> TrainingFieldName cfg)
      \<and> FieldName fv = TrainingFieldName cfg \<and> FieldValues c = pre @ fv # rest"
  then have "find (\<lambda>val. FieldName val = TrainingFieldName cfg) (pre @ fv # rest) = Some fv"
    by (intro find_append_first) simp_all
  with a show "ExtractTrainingLabels c cfg = parseTrainingLabels fv"
    by (simp add: ExtractTrainingLabels_first firstField_def del: parseTrainingLabels.simps)
qed

theorem extractors_first_match_witness:
  "ExtractTagID
     (contact 6 [field ''Phone'' INil, field ''TagId'' (IString ''12''), field ''TagId'' (IString ''x'')])
     cfg0 = (12, None)
   \<and> ExtractTrainingLabels
     (contact 6 [field ''Safety Training'' (ISlice [IMap [''Label'' \<mapsto> IString ''Laser'']]),
                 field ''Safety Training'' INil])
     cfg0 = ([''Laser''], None)"
proof -
  let ?c1 = "contact 6 [field ''Phone'' INil, field ''TagId'' (IString ''12''), field ''TagId'' (IString ''x'')]"
  let ?f2 = "field ''Safety Training'' (ISlice [IMap [''Label'' \<mapsto> IString ''Laser'']])"
  let ?c2 = "contact 6 [?f2, field ''Safety Training'' INil]"
  have h1: "(\<forall>v \<in> set [field ''Phone'' INil]. FieldName v \<noteq> TagIdFieldName cfg0)
      \<and> FieldName (field ''TagId'' (IString ''12'')) = TagIdFieldName cfg0
      \<and> FieldValues ?c1 = [field ''Phone'' INil] @ field ''TagId'' (IString ''12'') # [field ''TagId'' (IString ''x'')]"
    by (simp add: sample_defs)
  have h2: "(\<forall>v \<in> set []. FieldName v \<noteq> TrainingFieldName cfg0)
      \<and> FieldName ?f2 = TrainingFieldName cfg0
      \<and> FieldValues ?c2 = [] @ ?f2 # [field ''Safety Training'' INil]"
    by (simp add: sample_defs)
  have a: "ExtractTagID ?c1 cfg0 = parseTagId (field ''TagId'' (IString ''12''))"
    using h1 extractors_first_match
      [of "[field ''Phone'' INil]" cfg0 "field ''TagId'' (IString ''12'')" ?c1
          "[field ''TagId'' (IString ''x'')]"]
    by blast
  have b: "ExtractTrainingLabels ?c2 cfg0 = parseTrainingLabels ?f2"
    using h2 extractors_first_match [of "[]" cfg0 ?f2 ?c2 "[field ''Safety Training'' INil]"]
    by blast
  have a': "parseTagId (field ''TagId'' (IString ''12'')) = (12, None)"
    by (simp add: field_def ParseUint_def digitVal_def base_def bitSize_def maxUint64_def int64_def)
  have b': "parseTrainingLabels ?f2 = ([''Laser''], None)"
    by (simp add: field_def)
  show ?thesis
    using a b a' b' by simp
qed

text \<open>
  C10: a field that is present with a nil value is treated differently by the two
  extractors: as the tag-id field it gives the tag id 0 with no error, as the training
  field it gives the error "training value is not a slice".
\<close>

theorem nil_value_asymmetry:
  "(firstField (TagIdFieldName cfg) c = Some fv \<and> Value fv = INil \<longrightarrow>
      ExtractTagID c cfg = (0, None))
   \<and> (firstField (TrainingFieldName cfg) c = Some fv \<and> Value fv = INil \<longrightarrow>
      ExtractTrainingLabels c cfg = ([], Some TrainingNotSlice))"
  by (simp add: ExtractTagID_first ExtractTrainingLabels_first)

theorem nil_value_asymmetry_witness:
  "firstField (TagIdFieldName cfg0) (contact 7 [field ''TagId'' INil]) = Some (field ''TagId'' INil)
   \<and> Value (field ''TagId'' INil) = INil
   \<and> ExtractTagID (contact 7 [field ''TagId'' INil]) cfg0 = (0, None)
   \<and> firstField (TrainingFieldName cfg0) (contact 7 [field ''Safety Training'' INil])
       = Some (field ''Safety Training'' INil)
   \<and> Value (field ''Safety Training'' INil) = INil
   \<and> ExtractTrainingLabels (contact 7 [field ''Safety Training'' INil]) cfg0
       = ([], Some TrainingNotSlice)"
proof -
  have h1: "firstField (TagIdFieldName cfg0) (contact 7 [field ''TagId'' INil])
       = Some (field ''TagId'' INil) \<and> Value (field ''TagId'' INil) = INil"
    by (simp add: sample_defs)
  have h2: "firstField (TrainingFieldName cfg0) (contact 7 [field ''Safety Training'' INil])
       = Some (field ''Safety Training'' INil) \<and> Value (field ''Safety Training'' INil) = INil"
    by (simp add: sample_defs)
  have a: "ExtractTagID (contact 7 [field ''TagId'' INil]) cfg0 = (0, None)"
    using h1 nil_value_asymmetry [of cfg0 "contact 7 [field ''TagId'' INil]" "field ''TagId'' INil"]
    by blast
  have b: "ExtractTrainingLabels (contact 7 [field ''Safety Training'' INil]) cfg0
       = ([], Some TrainingNotSlice)"
    using h2 nil_value_asymmetry
      [of cfg0 "contact 7 [field ''Safety Training'' INil]" "field ''Safety Training'' INil"]
    by blast
  show ?thesis
    using h1 h2 a b by simp
qed

section \<open>Claim about the reconcile cycle\<close>

text \<open>
  C7: when the fetch of the contact list fails, \<open>updateDatabaseFromWildApricot\<close> returns
  without calling \<open>ProcessContactsData\<close>: the store is the one it started with, and the
  function has logged its start, called \<open>GetContacts\<close>, logged the failure, and done
  nothing else.
\<close>

theorem fetch_failure_leaves_store:
  assumes "snd (fst (GetContacts accountId (waService w))) = Some e"
  shows "store (updateDatabaseFromWildApricot GetContacts ProcessContactsData accountId w) = store w
         \<and> trace (updateDatabaseFromWildApricot GetContacts ProcessContactsData accountId w)
             = trace w @ [Log Fetching, GetContacts_called accountId, Log (FetchFailed e)]"
proof -
  obtain contacts err wa where g: "GetContacts accountId (waService w) = ((contacts, err), wa)"
    by (cases "GetContacts accountId (waService w)") auto
  with assms have "err = Some e" by simp
  with g show ?thesis
    by (simp add: updateDatabaseFromWildApricot_def emit_def)
qed

theorem fetch_failure_leaves_store_witness:
  "snd (fst ((\<lambda>a u. (([], Some ''timeout''), u)) (42 :: int) (waService \<lparr>waService = (), store = [1 :: nat, 2], trace = []\<rparr>)))
     = Some ''timeout''
   \<and> store (updateDatabaseFromWildApricot (\<lambda>a u. (([], Some ''timeout''), u))
        (\<lambda>cs st. (None, [])) 42 \<lparr>waService = (), store = [1 :: nat, 2], trace = []\<rparr>) = [1, 2]
   \<and> trace (updateDatabaseFromWildApricot (\<lambda>a u. (([], Some ''timeout''), u))
        (\<lambda>cs st. (None, [])) 42 \<lparr>waService = (), store = [1 :: nat, 2], trace = []\<rparr>)
       = [Log Fetching, GetContacts_called 42, Log (FetchFailed ''timeout'')]"
proof -
  let ?G = "\<lambda>(a :: int) (u :: unit). (([] :: Contact list, Some ''timeout''), u)"
  let ?w = "\<lparr>waService = (), store = [1 :: nat, 2], trace = [] :: string event list\<rparr>"
  have h: "snd (fst (?G 42 (waService ?w))) = Some ''timeout''"
    by simp
  show ?thesis
    using h fetch_failure_leaves_store [of ?G 42 ?w "''timeout''" "\<lambda>cs st. (None, [])", OF h]
    by simp
qed

end
